theory Spec2Isabelle
  imports Complex_Main "HOL-Library.Word" "HOL-Library.Stream"
begin

section \<open>JavaScript values used by the password utilities\<close>

text \<open>
  The development embeds \<^verbatim>\<open>src/utils/passwordGenerator.js\<close>.

  A JavaScript string is a sequence of UTF-16 code units: \<^verbatim>\<open>s.length\<close> counts code
  units, \<^verbatim>\<open>s[i]\<close> reads one code unit, and a regular expression without the
  \<^verbatim>\<open>u\<close> flag matches code unit by code unit. Only the string iterator (used by
  \<^verbatim>\<open>new Set(s)\<close>) reads a high surrogate followed by a low surrogate as one element.
  Strings of the source that are plain ASCII are written as HOL literals and converted with
  \<open>ascii\<close>; the Chinese messages are given by their code units. Strings are lists of any
  length: the engine's limit on the length of a string is not modelled.
\<close>

type_synonym codeUnit = "16 word"
type_synonym jsString = "codeUnit list"

definition ascii :: "string \<Rightarrow> jsString" where
  "ascii s = map of_char s"

text \<open>
  \<^verbatim>\<open>crypto.getRandomValues\<close> is the only effect of the generator. The platform's
  random source is an infinite stream of unsigned 32-bit values; a call that fills a
  \<^verbatim>\<open>Uint32Array\<close> of \<open>n\<close> cells takes the next \<open>n\<close> values and leaves the rest.
\<close>

type_synonym randomSource = "32 word stream"

section \<open>Password generation\<close>

text \<open>\<^verbatim>\<open>getRandomValues(length)\<close>: a fresh \<^verbatim>\<open>Uint32Array\<close> filled from the source.\<close>

definition getRandomValues :: "nat \<Rightarrow> randomSource \<Rightarrow> 32 word list \<times> randomSource" where
  "getRandomValues n src = (stake n src, sdrop n src)"

text \<open>
  \<^verbatim>\<open>getRandomChar(charSet)\<close>: one value of the source modulo the length of the character
  set, then the code unit at that index. On an empty string JavaScript computes
  \<^verbatim>\<open>x % 0 = NaN\<close> and \<^verbatim>\<open>charSet[NaN] = undefined\<close>; that result is \<open>None\<close>.
\<close>

definition getRandomChar :: "jsString \<Rightarrow> randomSource \<Rightarrow> codeUnit option \<times> randomSource" where
  "getRandomChar charSet src =
     (let (randomValues, src') = getRandomValues 1 src;
          randomIndex = unat (randomValues ! 0) mod length charSet
      in (if charSet = [] then None else Some (charSet ! randomIndex), src'))"

text \<open>
  \<^verbatim>\<open>password += c\<close>: string concatenation; \<^verbatim>\<open>undefined\<close> is converted to the
  nine-letter string \<^verbatim>\<open>"undefined"\<close>.
\<close>

definition appendChar :: "jsString \<Rightarrow> codeUnit option \<Rightarrow> jsString" where
  "appendChar password c =
     (case c of None \<Rightarrow> password @ ascii ''undefined'' | Some u \<Rightarrow> password @ [u])"

text \<open>
  The options object of \<^verbatim>\<open>generatePassword\<close>. A property that is absent (or
  \<^verbatim>\<open>undefined\<close>) is \<open>None\<close>. The length is an integer, as the data model of the
  specification has it.
\<close>

record options =
  length_opt :: "int option"
  includeUppercase_opt :: "bool option"
  includeLowercase_opt :: "bool option"
  includeNumbers_opt :: "bool option"
  includeSymbols_opt :: "bool option"
  excludeSimilar_opt :: "bool option"
  excludeAmbiguous_opt :: "bool option"

text \<open>The local bindings that the destructuring pattern of \<^verbatim>\<open>generatePassword\<close> introduces.\<close>

record config =
  length' :: int
  includeUppercase :: bool
  includeLowercase :: bool
  includeNumbers :: bool
  includeSymbols :: bool
  excludeSimilar :: bool
  excludeAmbiguous :: bool

text \<open>A destructuring default \<^verbatim>\<open>{ x = d }\<close>: the default replaces an absent property.\<close>

definition orDefault :: "'a \<Rightarrow> 'a option \<Rightarrow> 'a" where
  "orDefault d v = (case v of None \<Rightarrow> d | Some x \<Rightarrow> x)"

definition destructure :: "options \<Rightarrow> config" where
  "destructure opts =
     \<lparr> length' = orDefault 16 (length_opt opts),
       includeUppercase = orDefault True (includeUppercase_opt opts),
       includeLowercase = orDefault True (includeLowercase_opt opts),
       includeNumbers = orDefault True (includeNumbers_opt opts),
       includeSymbols = orDefault True (includeSymbols_opt opts),
       excludeSimilar = orDefault False (excludeSimilar_opt opts),
       excludeAmbiguous = orDefault False (excludeAmbiguous_opt opts) \<rparr>"

text \<open>
  The character set, built as the source builds it: the empty string, extended by one
  literal per selected class.
\<close>

definition buildCharSet :: "config \<Rightarrow> jsString" where
  "buildCharSet c =
     (let charSet0 = [];
          charSet1 = (if includeUppercase c
            then charSet0 @ (if excludeSimilar c then ascii ''ABCDEFGHJKLMNPQRSTUVWXYZ''
                             else ascii ''ABCDEFGHIJKLMNOPQRSTUVWXYZ'')
            else charSet0);
          charSet2 = (if includeLowercase c
            then charSet1 @ (if excludeSimilar c then ascii ''abcdefghijkmnopqrstuvwxyz''
                             else ascii ''abcdefghijklmnopqrstuvwxyz'')
            else charSet1);
          charSet3 = (if includeNumbers c
            then charSet2 @ (if excludeSimilar c then ascii ''23456789''
                             else ascii ''0123456789'')
            else charSet2);
          charSet4 = (if includeSymbols c
            then (let symbols = (if excludeAmbiguous c
                                 then ascii ''!@#$%^&*()_+-=[]{}|;:,.<>?''
                                 else ascii ''!@#$%^&*()_+-=[]{}|;:,.<>?/~`'')
                  in charSet3 @ symbols)
            else charSet3)
      in charSet4)"

text \<open>
  The loop \<^verbatim>\<open>for (let i = 0; i < length; i++) password += getRandomChar(charSet)\<close>,
  with the counter, the password so far and the random source as its state.
\<close>

function generateLoop ::
  "jsString \<Rightarrow> int \<Rightarrow> int \<Rightarrow> jsString \<Rightarrow> randomSource \<Rightarrow> jsString \<times> randomSource" where
  "generateLoop charSet len i password src =
     (if i < len
      then (case getRandomChar charSet src of
              (c, src') \<Rightarrow> generateLoop charSet len (i + 1) (appendChar password c) src')
      else (password, src))"
  by pat_completeness auto
termination
  by (relation "measure (\<lambda>(charSet, len, i, password, src). nat (len - i))") auto

text \<open>
  The one error of the generator: \<^verbatim>\<open>throw new Error(...)\<close> with the message
  "at least one character type has to be selected".
\<close>

datatype error = ConfigurationError

definition generatePassword :: "options \<Rightarrow> randomSource \<Rightarrow> (error + jsString) \<times> randomSource" where
  "generatePassword opts src =
     (let c = destructure opts;
          charSet = buildCharSet c
      in if length charSet = 0 then (Inl ConfigurationError, src)
         else (case generateLoop charSet (length' c) 0 [] src of
                 (password, src') \<Rightarrow> (Inr password, src')))"

text \<open>The options object \<^verbatim>\<open>{}\<close>: every property is absent.\<close>

definition emptyObject :: options where
  "emptyObject =
     \<lparr> length_opt = None, includeUppercase_opt = None, includeLowercase_opt = None,
       includeNumbers_opt = None, includeSymbols_opt = None, excludeSimilar_opt = None,
       excludeAmbiguous_opt = None \<rparr>"

subsection \<open>The character set as the specification describes it\<close>

text \<open>
  The specification describes the character set as a table lookup: one table per character
  class, chosen by the exclusion flag that the class consults, and the tables of the
  selected classes concatenated in the order uppercase, lowercase, numbers, symbols. The
  tables are the literals of the source. This second definition is compared with
  \<open>buildCharSet\<close> below.
\<close>

datatype charClass = Uppercase | Lowercase | Numbers | Symbols

fun selected :: "config \<Rightarrow> charClass \<Rightarrow> bool" where
  "selected c Uppercase = includeUppercase c"
| "selected c Lowercase = includeLowercase c"
| "selected c Numbers = includeNumbers c"
| "selected c Symbols = includeSymbols c"

fun classTable :: "config \<Rightarrow> charClass \<Rightarrow> jsString" where
  "classTable c Uppercase =
     (if excludeSimilar c then ascii ''ABCDEFGHJKLMNPQRSTUVWXYZ''
      else ascii ''ABCDEFGHIJKLMNOPQRSTUVWXYZ'')"
| "classTable c Lowercase =
     (if excludeSimilar c then ascii ''abcdefghijkmnopqrstuvwxyz''
      else ascii ''abcdefghijklmnopqrstuvwxyz'')"
| "classTable c Numbers =
     (if excludeSimilar c then ascii ''23456789'' else ascii ''0123456789'')"
| "classTable c Symbols =
     (if excludeAmbiguous c then ascii ''!@#$%^&*()_+-=[]{}|;:,.<>?''
      else ascii ''!@#$%^&*()_+-=[]{}|;:,.<>?/~`'')"

definition characterSet :: "config \<Rightarrow> jsString" where
  "characterSet c =
     concat (map (classTable c) (filter (selected c) [Uppercase, Lowercase, Numbers, Symbols]))"

section \<open>Password strength\<close>

text \<open>
  The character classes of the four regular expressions. They have no \<^verbatim>\<open>u\<close> flag, so
  each tests single code units: \<^verbatim>\<open>[a-z]\<close>, \<^verbatim>\<open>[A-Z]\<close>, \<^verbatim>\<open>[0-9]\<close> and the negated
  class \<^verbatim>\<open>[^a-zA-Z0-9]\<close>, which every other code unit matches.
\<close>

definition isLowercase :: "codeUnit \<Rightarrow> bool" where
  "isLowercase u = (0x61 \<le> u \<and> u \<le> 0x7A)"

definition isUppercase :: "codeUnit \<Rightarrow> bool" where
  "isUppercase u = (0x41 \<le> u \<and> u \<le> 0x5A)"

definition isDigit :: "codeUnit \<Rightarrow> bool" where
  "isDigit u = (0x30 \<le> u \<and> u \<le> 0x39)"

definition isSpecial :: "codeUnit \<Rightarrow> bool" where
  "isSpecial u = (\<not> (isLowercase u \<or> isUppercase u \<or> isDigit u))"

text \<open>\<^verbatim>\<open>/[...]/.test(password)\<close>: some code unit of the string is in the class.\<close>

definition test :: "(codeUnit \<Rightarrow> bool) \<Rightarrow> jsString \<Rightarrow> bool" where
  "test cls password = list_ex cls password"

text \<open>
  The string iterator, which \<^verbatim>\<open>new Set(password)\<close> consumes: it yields one string per
  code point, so a high surrogate (D800 to DBFF) directly followed by a low surrogate (DC00
  to DFFF) is one element of two code units, and every other code unit is an element of
  its own.
\<close>

definition isHighSurrogate :: "codeUnit \<Rightarrow> bool" where
  "isHighSurrogate u = (0xD800 \<le> u \<and> u \<le> 0xDBFF)"

definition isLowSurrogate :: "codeUnit \<Rightarrow> bool" where
  "isLowSurrogate u = (0xDC00 \<le> u \<and> u \<le> 0xDFFF)"

fun stringIterator :: "jsString \<Rightarrow> jsString list" where
  "stringIterator [] = []"
| "stringIterator [u] = [[u]]"
| "stringIterator (u # v # rest) =
     (if isHighSurrogate u \<and> isLowSurrogate v then [u, v] # stringIterator rest
      else [u] # stringIterator (v # rest))"

text \<open>\<^verbatim>\<open>new Set(password).size\<close>: the number of distinct elements the iterator yields.\<close>

definition uniqueChars :: "jsString \<Rightarrow> nat" where
  "uniqueChars password = length (remdups (stringIterator password))"

text \<open>
  JavaScript numbers are IEEE doubles. The model computes the score in exact real
  arithmetic, with \<^verbatim>\<open>Math.log2\<close> as the logarithm to base 2; the integers involved
  (lengths, counts, the constants) are far below \<open>2 ^ 53\<close>.
\<close>

text \<open>\<^verbatim>\<open>getCharSetSize(password)\<close>: the estimated size of the alphabet in use.\<close>

definition getCharSetSize :: "jsString \<Rightarrow> real" where
  "getCharSetSize password =
     (let size0 = 0;
          size1 = (if test isLowercase password then size0 + 26 else size0);
          size2 = (if test isUppercase password then size1 + 26 else size1);
          size3 = (if test isDigit password then size2 + 10 else size2);
          size4 = (if test isSpecial password then size3 + 32 else size3)
      in size4)"

text \<open>
  The four additive parts of the score, in the order of the source: the length thresholds,
  the character types, the ratio of distinct characters, and the entropy estimate.
\<close>

definition lengthScore :: "jsString \<Rightarrow> real" where
  "lengthScore password =
     (if length password \<ge> 8 then 10 else 0) + (if length password \<ge> 12 then 10 else 0) +
     (if length password \<ge> 16 then 10 else 0) + (if length password \<ge> 20 then 10 else 0)"

definition charTypeScore :: "jsString \<Rightarrow> real" where
  "charTypeScore password =
     (if test isLowercase password then 10 else 0) + (if test isUppercase password then 10 else 0) +
     (if test isDigit password then 10 else 0) + (if test isSpecial password then 10 else 0)"

definition complexityScore :: "jsString \<Rightarrow> real" where
  "complexityScore password =
     min (real (uniqueChars password) / real (length password) * 20) 20"

definition entropyScore :: "jsString \<Rightarrow> real" where
  "entropyScore password =
     (let charSetSize = getCharSetSize password;
          entropy = real (length password) * log 2 charSetSize
      in min (entropy / 10) 10)"

text \<open>
  The feedback messages, by their UTF-16 code units. In English: "the password should have
  at least 8 characters", "a password of 12 or more characters is recommended", "lowercase
  letters are recommended", "uppercase letters are recommended", "digits are recommended",
  "special characters are recommended", "more distinct characters are recommended".
\<close>

definition msgAtLeast8 :: jsString where
  "msgAtLeast8 = [0x5BC6, 0x7801, 0x957F, 0x5EA6, 0x81F3, 0x5C11, 0x5E94, 0x4E3A, 0x0020,
     0x0038, 0x0020, 0x4E2A, 0x5B57, 0x7B26]"

definition msgSuggest12 :: jsString where
  "msgSuggest12 = [0x5EFA, 0x8BAE, 0x4F7F, 0x7528, 0x0020, 0x0031, 0x0032, 0x0020, 0x4E2A,
     0x5B57, 0x7B26, 0x4EE5, 0x4E0A, 0x7684, 0x5BC6, 0x7801]"

definition msgLowercase :: jsString where
  "msgLowercase = [0x5EFA, 0x8BAE, 0x5305, 0x542B, 0x5C0F, 0x5199, 0x5B57, 0x6BCD]"

definition msgUppercase :: jsString where
  "msgUppercase = [0x5EFA, 0x8BAE, 0x5305, 0x542B, 0x5927, 0x5199, 0x5B57, 0x6BCD]"

definition msgDigit :: jsString where
  "msgDigit = [0x5EFA, 0x8BAE, 0x5305, 0x542B, 0x6570, 0x5B57]"

definition msgSpecial :: jsString where
  "msgSpecial = [0x5EFA, 0x8BAE, 0x5305, 0x542B, 0x7279, 0x6B8A, 0x5B57, 0x7B26]"

definition msgMoreDistinct :: jsString where
  "msgMoreDistinct = [0x5EFA, 0x8BAE, 0x4F7F, 0x7528, 0x66F4, 0x591A, 0x4E0D, 0x540C, 0x7684,
     0x5B57, 0x7B26]"

text \<open>\<^verbatim>\<open>if (cond) feedback.push(msg)\<close>.\<close>

definition pushIf :: "bool \<Rightarrow> jsString \<Rightarrow> jsString list \<Rightarrow> jsString list" where
  "pushIf cond msg feedback = (if cond then feedback @ [msg] else feedback)"

definition buildFeedback :: "jsString \<Rightarrow> jsString list" where
  "buildFeedback password =
     (let feedback0 = [];
          feedback1 = pushIf (length password < 8) msgAtLeast8 feedback0;
          feedback2 = pushIf (length password < 12) msgSuggest12 feedback1;
          feedback3 = pushIf (\<not> test isLowercase password) msgLowercase feedback2;
          feedback4 = pushIf (\<not> test isUppercase password) msgUppercase feedback3;
          feedback5 = pushIf (\<not> test isDigit password) msgDigit feedback4;
          feedback6 = pushIf (\<not> test isSpecial password) msgSpecial feedback5;
          feedback7 = pushIf (real (uniqueChars password) / real (length password) < 0.5)
                        msgMoreDistinct feedback6
      in feedback7)"

text \<open>The level that belongs to a score.\<close>

definition levelOf :: "real \<Rightarrow> jsString" where
  "levelOf s =
     (if s \<ge> 80 then ascii ''very-strong''
      else if s \<ge> 60 then ascii ''strong''
      else if s \<ge> 40 then ascii ''medium''
      else ascii ''weak'')"

record strengthReport =
  score :: real
  level :: jsString
  feedback :: "jsString list"

text \<open>
  \<^verbatim>\<open>calculatePasswordStrength(password)\<close>. For a string, \<^verbatim>\<open>!password\<close> holds exactly
  when it is empty.
\<close>

definition calculatePasswordStrength :: "jsString \<Rightarrow> strengthReport" where
  "calculatePasswordStrength password =
     (if password = [] then \<lparr> score = 0, level = ascii ''weak'', feedback = [] \<rparr>
      else
        (let score0 = 0;
             score1 = score0 + lengthScore password;
             score2 = score1 + charTypeScore password;
             score3 = score2 + complexityScore password;
             score4 = score3 + entropyScore password;
             score5 = min (max score4 0) 100
         in \<lparr> score = score5, level = levelOf score5, feedback = buildFeedback password \<rparr>))"

text \<open>
  The number of character classes of the four that occur in a password; a password "of mixed
  classes" has at least two.
\<close>

definition classCount :: "jsString \<Rightarrow> nat" where
  "classCount password =
     (if test isLowercase password then 1 else 0) + (if test isUppercase password then 1 else 0) +
     (if test isDigit password then 1 else 0) + (if test isSpecial password then 1 else 0)"

section \<open>Properties of the generator\<close>

subsection \<open>The character set\<close>

lemma buildCharSet_characterSet: "buildCharSet c = characterSet c"
  by (simp add: buildCharSet_def characterSet_def Let_def)

lemma buildCharSet_empty_iff:
  "buildCharSet c = [] \<longleftrightarrow>
     \<not> includeUppercase c \<and> \<not> includeLowercase c \<and> \<not> includeNumbers c \<and> \<not> includeSymbols c"
  by (simp add: buildCharSet_def Let_def ascii_def)

lemma charClass_all: "cls \<in> set [Uppercase, Lowercase, Numbers, Symbols]"
  by (cases cls) simp_all

lemma characterSet_member:
  "x \<in> set (characterSet c) \<longleftrightarrow> (\<exists>cls. selected c cls \<and> x \<in> set (classTable c cls))"
proof -
  have "x \<in> set (characterSet c) \<longleftrightarrow>
      (\<exists>cls \<in> set [Uppercase, Lowercase, Numbers, Symbols].
         selected c cls \<and> x \<in> set (classTable c cls))"
    unfolding characterSet_def set_concat set_map set_filter by blast
  then show ?thesis
    using charClass_all by blast
qed

text \<open>With \<open>excludeAmbiguous\<close>, no table holds a slash, a tilde or a backtick.\<close>

lemma classTable_excludeAmbiguous:
  assumes "excludeAmbiguous c"
  shows "set (classTable c cls) \<inter> set (ascii ''/~`'') = {}"
  using assms by (cases cls) (simp_all add: ascii_def)

lemma buildCharSet_excludeAmbiguous:
  assumes "excludeAmbiguous c"
  shows "set (buildCharSet c) \<inter> set (ascii ''/~`'') = {}"
  using classTable_excludeAmbiguous [OF assms] unfolding buildCharSet_characterSet
  using characterSet_member [of _ c] by blast

text \<open>With \<open>excludeSimilar\<close>, no table holds one of the five look-alike characters.\<close>

lemma classTable_excludeSimilar:
  assumes "excludeSimilar c"
  shows "set (classTable c cls) \<inter> set (ascii ''0O1lI'') = {}"
  using assms by (cases cls) (simp_all add: ascii_def)

lemma buildCharSet_excludeSimilar:
  assumes "excludeSimilar c"
  shows "set (buildCharSet c) \<inter> set (ascii ''0O1lI'') = {}"
  using classTable_excludeSimilar [OF assms] unfolding buildCharSet_characterSet
  using characterSet_member [of _ c] by blast

subsection \<open>Drawing characters\<close>

lemma getRandomChar_nonempty:
  assumes "charSet \<noteq> []"
  shows "getRandomChar charSet src =
           (Some (charSet ! (unat (shd src) mod length charSet)), stl src)"
  using assms by (simp add: getRandomChar_def getRandomValues_def)

text \<open>
  The loop started at counter \<open>i\<close> appends \<open>len - i\<close> code units (none when that is
  negative), all of the character set, and consumes as many values of the source.
\<close>

lemma generateLoop_result:
  assumes "charSet \<noteq> []"
    and "generateLoop charSet len i password src = (password', src')"
  shows "length password' = length password + nat (len - i) \<and>
         set password' \<subseteq> set password \<union> set charSet \<and>
         src' = sdrop (nat (len - i)) src"
  using assms
proof (induction charSet len i password src rule: generateLoop.induct)
  case (1 charSet len i password src)
  show ?case
  proof (cases "i < len")
    case False
    with "1.prems" show ?thesis by simp
  next
    case True
    obtain u where u: "getRandomChar charSet src = (Some u, stl src)" and mem: "u \<in> set charSet"
      using getRandomChar_nonempty [OF "1.prems"(1), of src] "1.prems"(1) by simp
    from True u "1.prems"(2)
    have run: "generateLoop charSet len (i + 1) (password @ [u]) (stl src) = (password', src')"
      by (simp add: appendChar_def)
    have ih: "length password' = length (password @ [u]) + nat (len - (i + 1)) \<and>
         set password' \<subseteq> set (password @ [u]) \<union> set charSet \<and>
         src' = sdrop (nat (len - (i + 1))) (stl src)"
      using "1.IH" [OF True u [symmetric] "1.prems"(1)] run
      by (simp add: appendChar_def)
    have n: "nat (len - i) = Suc (nat (len - (i + 1)))"
      using True by simp
    from ih mem show ?thesis
      by (auto simp: n)
  qed
qed

lemma generatePassword_success:
  assumes "buildCharSet (destructure opts) \<noteq> []"
  shows "\<exists>password. generatePassword opts src =
           (Inr password, sdrop (nat (length' (destructure opts))) src) \<and>
         length password = nat (length' (destructure opts)) \<and>
         set password \<subseteq> set (buildCharSet (destructure opts))"
proof -
  obtain password src' where run:
    "generateLoop (buildCharSet (destructure opts)) (length' (destructure opts)) 0 [] src =
       (password, src')"
    by (cases "generateLoop (buildCharSet (destructure opts)) (length' (destructure opts)) 0 [] src")
  from generateLoop_result [OF assms run] assms run show ?thesis
    by (simp add: generatePassword_def Let_def)
qed


subsection \<open>Length and membership\<close>

text \<open>
  Claim C2. For every configuration with length \<open>n \<ge> 1\<close> and at least one of the four
  include-flags true, and for every stream of values of the random source,
  \<open>generatePassword\<close> returns (it is a total function and the result is not the error) a
  string of exactly \<open>n\<close> code units, each a member of the character set that concatenates,
  in the order uppercase, lowercase, numbers, symbols, the tables of the classes that the
  flags of the configuration select. The configuration is the options object that the
  caller passes, with its seven properties present, as in the data model of the
  specification; the character set is that of the caller's own flags.
\<close>

theorem generatePassword_length_members:
  assumes "1 \<le> n"
    and "upper \<or> lower \<or> numbers \<or> symbols"
  shows "\<exists>password src'.
           generatePassword
             \<lparr> length_opt = Some n, includeUppercase_opt = Some upper,
               includeLowercase_opt = Some lower, includeNumbers_opt = Some numbers,
               includeSymbols_opt = Some symbols, excludeSimilar_opt = Some similar,
               excludeAmbiguous_opt = Some ambiguous \<rparr> src = (Inr password, src') \<and>
           int (length password) = n \<and>
           set password \<subseteq> set (characterSet
             \<lparr> length' = n, includeUppercase = upper, includeLowercase = lower,
               includeNumbers = numbers, includeSymbols = symbols, excludeSimilar = similar,
               excludeAmbiguous = ambiguous \<rparr>)"
proof -
  let ?o = "\<lparr> length_opt = Some n, includeUppercase_opt = Some upper,
               includeLowercase_opt = Some lower, includeNumbers_opt = Some numbers,
               includeSymbols_opt = Some symbols, excludeSimilar_opt = Some similar,
               excludeAmbiguous_opt = Some ambiguous \<rparr>"
  let ?c = "\<lparr> length' = n, includeUppercase = upper, includeLowercase = lower,
               includeNumbers = numbers, includeSymbols = symbols, excludeSimilar = similar,
               excludeAmbiguous = ambiguous \<rparr>"
  have d: "destructure ?o = ?c"
    by (simp add: destructure_def orDefault_def)
  have "buildCharSet ?c \<noteq> []"
    using assms(2) by (simp add: buildCharSet_empty_iff)
  then have "buildCharSet (destructure ?o) \<noteq> []"
    by (simp add: d)
  from generatePassword_success [OF this, of src]
  obtain password where p: "generatePassword ?o src =
        (Inr password, sdrop (nat (length' (destructure ?o))) src)"
      "length password = nat (length' (destructure ?o))"
      "set password \<subseteq> set (buildCharSet (destructure ?o))"
    by blast
  from p(2) assms(1) have "int (length password) = n"
    by (simp add: d)
  moreover from p(3) have "set password \<subseteq> set (characterSet ?c)"
    by (simp only: d buildCharSet_characterSet)
  ultimately show ?thesis
    using p(1) by blast
qed

text \<open>
  An instance: a caller who asks for four uppercase letters only, on the source that repeats
  the value 90. The character set has 26 members and \<open>90 mod 26 = 12\<close> selects \<^verbatim>\<open>M\<close>; in
  the full alphabet of 91 characters, index 90 would be the backtick.
\<close>

theorem generatePassword_length_members_witness:
  "(1::int) \<le> 4 \<and>
   (\<exists>password src'.
      generatePassword
        \<lparr> length_opt = Some 4, includeUppercase_opt = Some True,
          includeLowercase_opt = Some False, includeNumbers_opt = Some False,
          includeSymbols_opt = Some False, excludeSimilar_opt = Some False,
          excludeAmbiguous_opt = Some False \<rparr> (sconst 90) = (Inr password, src') \<and>
      int (length password) = 4 \<and>
      set password \<subseteq> set (characterSet
        \<lparr> length' = 4, includeUppercase = True, includeLowercase = False,
          includeNumbers = False, includeSymbols = False, excludeSimilar = False,
          excludeAmbiguous = False \<rparr>)) \<and>
   characterSet
        \<lparr> length' = 4, includeUppercase = True, includeLowercase = False,
          includeNumbers = False, includeSymbols = False, excludeSimilar = False,
          excludeAmbiguous = False \<rparr> = ascii ''ABCDEFGHIJKLMNOPQRSTUVWXYZ'' \<and>
   generatePassword
        \<lparr> length_opt = Some 4, includeUppercase_opt = Some True,
          includeLowercase_opt = Some False, includeNumbers_opt = Some False,
          includeSymbols_opt = Some False, excludeSimilar_opt = Some False,
          excludeAmbiguous_opt = Some False \<rparr> (sconst 90) = (Inr (ascii ''MMMM''), sconst 90)"
proof -
  have cs: "characterSet
        \<lparr> length' = 4, includeUppercase = True, includeLowercase = False,
          includeNumbers = False, includeSymbols = False, excludeSimilar = False,
          excludeAmbiguous = False \<rparr> = ascii ''ABCDEFGHIJKLMNOPQRSTUVWXYZ''"
    by (simp add: characterSet_def)
  have run: "generatePassword
        \<lparr> length_opt = Some 4, includeUppercase_opt = Some True,
          includeLowercase_opt = Some False, includeNumbers_opt = Some False,
          includeSymbols_opt = Some False, excludeSimilar_opt = Some False,
          excludeAmbiguous_opt = Some False \<rparr> (sconst 90) = (Inr (ascii ''MMMM''), sconst 90)"
    by (simp add: generatePassword_def destructure_def orDefault_def
        buildCharSet_def getRandomChar_def getRandomValues_def appendChar_def ascii_def Let_def)
  have one: "(1::int) \<le> 4"
    by simp
  from generatePassword_length_members [OF one disjI1 [OF TrueI],
      of False False False False False "sconst 90"] cs run
  show ?thesis
    by simp
qed

subsection \<open>Ambiguous symbols\<close>

text \<open>
  Claim C1, as stated, fails. With \<open>includeSymbols\<close> and \<open>excludeAmbiguous\<close> the symbol
  literal of the source is \<^verbatim>\<open>!@#$%^&*()_+-=[]{}|;:,.<>?\<close>, which still holds the brackets,
  the braces, the bar and the angle brackets. The options
  \<^verbatim>\<open>{ length: 1, includeUppercase: false, includeLowercase: false, includeNumbers: false,
  includeSymbols: true, excludeSimilar: false, excludeAmbiguous: true }\<close> and the random value
  14 give the password \<^verbatim>\<open>[\<close>.
\<close>

theorem generatePassword_excludeAmbiguous_bracket:
  "includeSymbols (destructure \<lparr> length_opt = Some 1, includeUppercase_opt = Some False,
       includeLowercase_opt = Some False, includeNumbers_opt = Some False,
       includeSymbols_opt = Some True, excludeSimilar_opt = Some False,
       excludeAmbiguous_opt = Some True \<rparr>) \<and>
   excludeAmbiguous (destructure \<lparr> length_opt = Some 1, includeUppercase_opt = Some False,
       includeLowercase_opt = Some False, includeNumbers_opt = Some False,
       includeSymbols_opt = Some True, excludeSimilar_opt = Some False,
       excludeAmbiguous_opt = Some True \<rparr>) \<and>
   generatePassword \<lparr> length_opt = Some 1, includeUppercase_opt = Some False,
       includeLowercase_opt = Some False, includeNumbers_opt = Some False,
       includeSymbols_opt = Some True, excludeSimilar_opt = Some False,
       excludeAmbiguous_opt = Some True \<rparr> (sconst 14) = (Inr (ascii ''[''), sconst 14) \<and>
   set (ascii ''['') \<subseteq> set (ascii ''[]{}|<>/~`'')"
  by (simp add: generatePassword_def destructure_def orDefault_def buildCharSet_def
      getRandomChar_def getRandomValues_def appendChar_def ascii_def Let_def)

text \<open>
  Claim C1, amended. For every configuration with \<open>includeSymbols\<close> and \<open>excludeAmbiguous\<close>
  true, and for every stream of values of the random source, \<open>generatePassword\<close> returns a
  password none of whose characters is a slash, a tilde or a backtick, whatever the value of
  \<open>excludeSimilar\<close>.
\<close>

theorem generatePassword_excludeAmbiguous:
  assumes "includeSymbols (destructure opts)" and "excludeAmbiguous (destructure opts)"
  shows "\<exists>password src'. generatePassword opts src = (Inr password, src') \<and>
           set password \<inter> set (ascii ''/~`'') = {}"
proof -
  have "buildCharSet (destructure opts) \<noteq> []"
    using assms(1) by (simp add: buildCharSet_empty_iff)
  from generatePassword_success [OF this, of src]
  obtain password src' where p: "generatePassword opts src = (Inr password, src')"
    "set password \<subseteq> set (buildCharSet (destructure opts))"
    by blast
  from p(2) buildCharSet_excludeAmbiguous [OF assms(2)]
  have "set password \<inter> set (ascii ''/~`'') = {}"
    by blast
  with p(1) show ?thesis
    by blast
qed

text \<open>
  An instance: the options \<^verbatim>\<open>{ excludeSimilar: true, excludeAmbiguous: true }\<close> on the
  source that repeats the value 85.
\<close>

theorem generatePassword_excludeAmbiguous_witness:
  "includeSymbols (destructure
      (emptyObject \<lparr> excludeSimilar_opt := Some True, excludeAmbiguous_opt := Some True \<rparr>)) \<and>
   excludeAmbiguous (destructure
      (emptyObject \<lparr> excludeSimilar_opt := Some True, excludeAmbiguous_opt := Some True \<rparr>)) \<and>
   (\<exists>password src'.
      generatePassword
        (emptyObject \<lparr> excludeSimilar_opt := Some True, excludeAmbiguous_opt := Some True \<rparr>)
        (sconst 85) = (Inr password, src') \<and>
      set password \<inter> set (ascii ''/~`'') = {})"
proof -
  let ?o = "emptyObject \<lparr> excludeSimilar_opt := Some True, excludeAmbiguous_opt := Some True \<rparr>"
  have s: "includeSymbols (destructure ?o)"
    by (simp add: destructure_def orDefault_def emptyObject_def)
  have a: "excludeAmbiguous (destructure ?o)"
    by (simp add: destructure_def orDefault_def emptyObject_def)
  from generatePassword_excludeAmbiguous [OF s a, of "sconst 85"] s a
  show ?thesis by simp
qed

subsection \<open>Similar characters\<close>

text \<open>
  Claim C4. For every configuration with \<open>excludeSimilar\<close> true, and for every stream of
  values of the random source, no character of a password that \<open>generatePassword\<close> returns
  is one of \<^verbatim>\<open>0 O 1 l I\<close>. The tables of the uppercase, lowercase and numbers classes hold
  none of the five under that flag; the symbol tables never do, so the statement covers
  every character of the password, whichever class contributed it.
\<close>

theorem generatePassword_excludeSimilar:
  assumes "excludeSimilar (destructure opts)"
    and "generatePassword opts src = (Inr password, src')"
  shows "set password \<inter> set (ascii ''0O1lI'') = {} \<and>
         set (classTable (destructure opts) Uppercase) \<inter> set (ascii ''0O1lI'') = {} \<and>
         set (classTable (destructure opts) Lowercase) \<inter> set (ascii ''0O1lI'') = {} \<and>
         set (classTable (destructure opts) Numbers) \<inter> set (ascii ''0O1lI'') = {}"
proof -
  have ne: "buildCharSet (destructure opts) \<noteq> []"
    using assms(2) by (auto simp: generatePassword_def Let_def split: if_splits)
  from generatePassword_success [OF ne, of src] assms(2)
  have "set password \<subseteq> set (buildCharSet (destructure opts))"
    by auto
  with buildCharSet_excludeSimilar [OF assms(1)]
  have "set password \<inter> set (ascii ''0O1lI'') = {}"
    by blast
  with classTable_excludeSimilar [OF assms(1)] show ?thesis
    by blast
qed

text \<open>
  An instance: the options \<^verbatim>\<open>{ length: 3, excludeSimilar: true }\<close> on the source that
  repeats the value 8. Index 8 of the character set is \<^verbatim>\<open>J\<close>; without the flag it would
  be \<^verbatim>\<open>I\<close>.
\<close>

theorem generatePassword_excludeSimilar_witness:
  "excludeSimilar (destructure (emptyObject \<lparr> length_opt := Some 3, excludeSimilar_opt := Some True \<rparr>)) \<and>
   generatePassword (emptyObject \<lparr> length_opt := Some 3, excludeSimilar_opt := Some True \<rparr>)
     (sconst 8) = (Inr (ascii ''JJJ''), sconst 8) \<and>
   set (ascii ''JJJ'') \<inter> set (ascii ''0O1lI'') = {}"
proof -
  let ?o = "emptyObject \<lparr> length_opt := Some 3, excludeSimilar_opt := Some True \<rparr>"
  have e: "excludeSimilar (destructure ?o)"
    by (simp add: destructure_def orDefault_def emptyObject_def)
  have run: "generatePassword ?o (sconst 8) = (Inr (ascii ''JJJ''), sconst 8)"
    by (simp add: generatePassword_def destructure_def orDefault_def emptyObject_def
        buildCharSet_def getRandomChar_def getRandomValues_def appendChar_def ascii_def Let_def)
  from generatePassword_excludeSimilar [OF e run] e run
  show ?thesis by simp
qed

subsection \<open>Defaults\<close>



section \<open>Properties of the strength score\<close>

subsection \<open>Distinct characters and character classes\<close>

lemma length_stringIterator_le: "length (stringIterator s) \<le> length s"
  by (induction s rule: stringIterator.induct) auto

lemma stringIterator_empty_iff: "stringIterator s = [] \<longleftrightarrow> s = []"
  by (induction s rule: stringIterator.induct) auto

lemma uniqueChars_le_length: "uniqueChars password \<le> length password"
proof -
  have "length (remdups (stringIterator password)) \<le> length (stringIterator password)"
    by (rule length_remdups_leq)
  also have "\<dots> \<le> length password"
    by (rule length_stringIterator_le)
  finally show ?thesis
    by (simp add: uniqueChars_def)
qed

text \<open>Every code unit is in one of the four classes: the negated class takes the rest.\<close>

lemma some_class:
  assumes "password \<noteq> []"
  shows "test isLowercase password \<or> test isUppercase password \<or> test isDigit password \<or>
         test isSpecial password"
proof -
  from assms obtain u rest where "password = u # rest"
    by (cases password) auto
  then show ?thesis
    by (auto simp: test_def isSpecial_def)
qed

lemma charTypeScore_ge_10:
  assumes "password \<noteq> []"
  shows "10 \<le> charTypeScore password"
  using some_class [OF assms] by (auto simp: charTypeScore_def)

lemma getCharSetSize_ge_10:
  assumes "password \<noteq> []"
  shows "10 \<le> getCharSetSize password"
  using some_class [OF assms] by (auto simp: getCharSetSize_def)

subsection \<open>Bounds of the four parts\<close>

lemma lengthScore_bounds:
  "0 \<le> lengthScore password" "lengthScore password \<le> 40"
  by (simp_all add: lengthScore_def)

lemma charTypeScore_bounds:
  "0 \<le> charTypeScore password" "charTypeScore password \<le> 40"
  by (simp_all add: charTypeScore_def)

lemma complexityScore_bounds:
  "0 \<le> complexityScore password" "complexityScore password \<le> 20"
  by (simp_all add: complexityScore_def)

lemma entropyScore_le: "entropyScore password \<le> 10"
  by (simp add: entropyScore_def Let_def)

lemma entropyScore_nonneg:
  assumes "password \<noteq> []"
  shows "0 \<le> entropyScore password"
proof -
  have "1 \<le> getCharSetSize password"
    using getCharSetSize_ge_10 [OF assms] by simp
  then have "0 \<le> log 2 (getCharSetSize password)"
    by simp
  then show ?thesis
    by (simp add: entropyScore_def Let_def)
qed

lemma score_nonempty:
  assumes "password \<noteq> []"
  shows "score (calculatePasswordStrength password) =
         min (max (lengthScore password + charTypeScore password + complexityScore password +
                   entropyScore password) 0) 100"
  using assms by (simp add: calculatePasswordStrength_def Let_def)

lemma level_nonempty:
  assumes "password \<noteq> []"
  shows "level (calculatePasswordStrength password) =
         levelOf (score (calculatePasswordStrength password))"
  using assms by (simp add: calculatePasswordStrength_def Let_def)

lemma feedback_nonempty:
  assumes "password \<noteq> []"
  shows "feedback (calculatePasswordStrength password) = buildFeedback password"
  using assms by (simp add: calculatePasswordStrength_def Let_def)

subsection \<open>The empty password\<close>

text \<open>
  Claim C6. \<open>calculatePasswordStrength\<close> applied to the empty string returns exactly
  the report with score 0, level \<^verbatim>\<open>weak\<close> and no feedback. It is the first branch of the
  function: no class test, no count of distinct characters and no division is evaluated.
\<close>

theorem calculatePasswordStrength_empty:
  "calculatePasswordStrength (ascii []) = \<lparr> score = 0, level = ascii ''weak'', feedback = [] \<rparr>"
  by (simp add: calculatePasswordStrength_def ascii_def)

subsection \<open>The password of eight letters a\<close>

lemma log2_26_bounds: "35 / 8 < log 2 26" "log 2 26 < 5"
proof -
  have "log 2 ((26::real) ^ 8) = real 8 * log 2 26"
    by (rule log_nat_power) simp
  moreover have "35 < log 2 ((26::real) ^ 8)"
    by (simp add: less_log_iff)
  ultimately show "35 / 8 < log 2 26"
    by simp
  show "log 2 26 < 5"
    by (simp add: log_less_iff)
qed

lemma a8_nonempty: "ascii ''aaaaaaaa'' \<noteq> []"
  by (simp add: ascii_def)

lemma a8_length: "length (ascii ''aaaaaaaa'') = 8"
  by (simp add: ascii_def)

lemma a8_uniqueChars: "uniqueChars (ascii ''aaaaaaaa'') = 1"
  by (simp add: uniqueChars_def ascii_def)

lemma a8_tests:
  "test isLowercase (ascii ''aaaaaaaa'')" "\<not> test isUppercase (ascii ''aaaaaaaa'')"
  "\<not> test isDigit (ascii ''aaaaaaaa'')" "\<not> test isSpecial (ascii ''aaaaaaaa'')"
  by (simp_all add: test_def ascii_def isLowercase_def isUppercase_def isDigit_def isSpecial_def)

lemma a8_lengthScore: "lengthScore (ascii ''aaaaaaaa'') = 10"
  by (simp add: lengthScore_def a8_length)

lemma a8_charTypeScore: "charTypeScore (ascii ''aaaaaaaa'') = 10"
  by (simp add: charTypeScore_def a8_tests)

lemma a8_complexityScore: "complexityScore (ascii ''aaaaaaaa'') = 2.5"
  by (simp add: complexityScore_def a8_length a8_uniqueChars)

lemma a8_entropyScore: "entropyScore (ascii ''aaaaaaaa'') = 8 * log 2 26 / 10"
  using log2_26_bounds
  by (simp add: entropyScore_def getCharSetSize_def a8_length a8_tests Let_def)

lemma a8_feedback:
  "buildFeedback (ascii ''aaaaaaaa'') =
     [msgSuggest12, msgUppercase, msgDigit, msgSpecial, msgMoreDistinct]"
  by (simp add: buildFeedback_def pushIf_def a8_length a8_tests a8_uniqueChars)

lemma a8_score:
  "score (calculatePasswordStrength (ascii ''aaaaaaaa'')) = 22.5 + 8 * log 2 26 / 10"
  using log2_26_bounds
  by (simp add: score_nonempty [OF a8_nonempty] a8_lengthScore a8_charTypeScore
      a8_complexityScore a8_entropyScore)

text \<open>The score of \<^verbatim>\<open>aaaaaaaa\<close> is about 26.26.\<close>

lemma a8_score_bounds:
  "26 < score (calculatePasswordStrength (ascii ''aaaaaaaa''))"
  "score (calculatePasswordStrength (ascii ''aaaaaaaa'')) < 27"
  using log2_26_bounds by (simp_all add: a8_score)

text \<open>
  Claim C7. For \<^verbatim>\<open>aaaaaaaa\<close> the score that \<open>calculatePasswordStrength\<close> returns is the
  sum of the length bonus 10, the character-class bonus 10, the uniqueness bonus 2.5 and
  the entropy bonus \<open>8 * log 2 26 / 10\<close>, which is at most 10; the score is below 40, so the
  level is \<^verbatim>\<open>weak\<close>; the feedback holds the messages for a length under 12, a missing
  uppercase letter, a missing digit, a missing special character and a ratio of distinct
  characters under 0.5 (these five, in this order, and no other).
\<close>

theorem calculatePasswordStrength_aaaaaaaa:
  "lengthScore (ascii ''aaaaaaaa'') = 10 \<and>
   charTypeScore (ascii ''aaaaaaaa'') = 10 \<and>
   complexityScore (ascii ''aaaaaaaa'') = 2.5 \<and>
   entropyScore (ascii ''aaaaaaaa'') \<le> 10 \<and>
   level (calculatePasswordStrength (ascii ''aaaaaaaa'')) = ascii ''weak'' \<and>
   feedback (calculatePasswordStrength (ascii ''aaaaaaaa'')) =
     [msgSuggest12, msgUppercase, msgDigit, msgSpecial, msgMoreDistinct] \<and>
   entropyScore (ascii ''aaaaaaaa'') = 8 * log 2 26 / 10 \<and>
   score (calculatePasswordStrength (ascii ''aaaaaaaa'')) = 10 + 10 + 2.5 + 8 * log 2 26 / 10 \<and>
   score (calculatePasswordStrength (ascii ''aaaaaaaa'')) < 40 \<and>
   calculatePasswordStrength (ascii ''aaaaaaaa'') =
     \<lparr> score = 10 + 10 + 2.5 + 8 * log 2 26 / 10, level = ascii ''weak'',
       feedback = [msgSuggest12, msgUppercase, msgDigit, msgSpecial, msgMoreDistinct] \<rparr>"
proof -
  have lv: "level (calculatePasswordStrength (ascii ''aaaaaaaa'')) = ascii ''weak''"
    unfolding level_nonempty [OF a8_nonempty] using a8_score_bounds by (simp add: levelOf_def)
  have fb: "feedback (calculatePasswordStrength (ascii ''aaaaaaaa'')) =
     [msgSuggest12, msgUppercase, msgDigit, msgSpecial, msgMoreDistinct]"
    by (simp add: feedback_nonempty [OF a8_nonempty] a8_feedback)
  have sc: "score (calculatePasswordStrength (ascii ''aaaaaaaa'')) = 10 + 10 + 2.5 + 8 * log 2 26 / 10"
    by (simp add: a8_score)
  have lt: "score (calculatePasswordStrength (ascii ''aaaaaaaa'')) < 40"
    using a8_score_bounds(2) by simp
  have "calculatePasswordStrength (ascii ''aaaaaaaa'') =
     \<lparr> score = score (calculatePasswordStrength (ascii ''aaaaaaaa'')),
       level = level (calculatePasswordStrength (ascii ''aaaaaaaa'')),
       feedback = feedback (calculatePasswordStrength (ascii ''aaaaaaaa'')) \<rparr>"
    by simp
  then have rep: "calculatePasswordStrength (ascii ''aaaaaaaa'') =
     \<lparr> score = 10 + 10 + 2.5 + 8 * log 2 26 / 10, level = ascii ''weak'',
       feedback = [msgSuggest12, msgUppercase, msgDigit, msgSpecial, msgMoreDistinct] \<rparr>"
    by (simp only: sc lv fb)
  from a8_lengthScore a8_charTypeScore a8_complexityScore
    entropyScore_le [of "ascii ''aaaaaaaa''"] lv fb a8_entropyScore sc lt rep
  show ?thesis
    by blast
qed

subsection \<open>The range of the score\<close>

text \<open>
  Claim C5, as stated, fails: the score is a number of the interval, not always an
  integer. The uniqueness and entropy parts are fractions; for \<^verbatim>\<open>aaaaaaaa\<close> the score is
  \<open>10 + 10 + 2.5 + 0.8 * log 2 26\<close>, strictly between 26 and 27.
\<close>

theorem score_aaaaaaaa_not_integer:
  "score (calculatePasswordStrength (ascii ''aaaaaaaa'')) \<notin> \<int>"
proof
  assume "score (calculatePasswordStrength (ascii ''aaaaaaaa'')) \<in> \<int>"
  then obtain k :: int where k: "score (calculatePasswordStrength (ascii ''aaaaaaaa'')) = of_int k"
    by (auto elim: Ints_cases)
  from a8_score_bounds have "26 < k" "k < 27"
    unfolding k by linarith+
  then show False
    by linarith
qed

text \<open>
  Claim C5, amended. For every string, the score of the report that
  \<open>calculatePasswordStrength\<close> returns is a number in the interval from 0 to 100.
\<close>

theorem score_range:
  "0 \<le> score (calculatePasswordStrength password) \<and>
   score (calculatePasswordStrength password) \<le> 100"
proof (cases "password = []")
  case True
  then show ?thesis
    by (simp add: calculatePasswordStrength_def)
next
  case False
  then show ?thesis
    by (simp add: score_nonempty)
qed

text \<open>An instance: a password of all four classes, whose raw sum the clamp has to keep in range.\<close>

theorem score_range_witness:
  "0 \<le> score (calculatePasswordStrength (ascii ''Tr0ub4dor&3xyz!'')) \<and>
   score (calculatePasswordStrength (ascii ''Tr0ub4dor&3xyz!'')) \<le> 100"
  using score_range [of "ascii ''Tr0ub4dor&3xyz!''"] by simp

subsection \<open>The least score of a non-empty password\<close>

text \<open>
  Claim C10. For every non-empty string the score is at least 10: some class test succeeds,
  since a code unit that is no letter and no digit is in the negated class, and the other
  parts are not negative. Hence the score is 0 only for the empty string.
\<close>

theorem score_ge_10:
  "(password \<noteq> [] \<longrightarrow> 10 \<le> score (calculatePasswordStrength password)) \<and>
   (score (calculatePasswordStrength password) = 0 \<longleftrightarrow> password = [])"
proof -
  have ge: "10 \<le> score (calculatePasswordStrength password)" if ne: "password \<noteq> []"
  proof -
    have "10 \<le> lengthScore password + charTypeScore password + complexityScore password +
                entropyScore password"
      using lengthScore_bounds(1) [of password] charTypeScore_ge_10 [OF ne]
        complexityScore_bounds(1) [of password] entropyScore_nonneg [OF ne]
      by linarith
    then show ?thesis
      by (simp add: score_nonempty [OF ne])
  qed
  have "score (calculatePasswordStrength []) = 0"
    by (simp add: calculatePasswordStrength_def)
  with ge show ?thesis
    by fastforce
qed

text \<open>An instance: the one-character password \<^verbatim>\<open>%\<close>, which only the negated class matches.\<close>

theorem score_ge_10_witness:
  "ascii ''%'' \<noteq> [] \<and> test isSpecial (ascii ''%'') \<and>
   10 \<le> score (calculatePasswordStrength (ascii ''%''))"
proof -
  have ne: "ascii ''%'' \<noteq> []"
    by (simp add: ascii_def)
  have sp: "test isSpecial (ascii ''%'')"
    by (simp add: test_def ascii_def isLowercase_def isUppercase_def isDigit_def isSpecial_def)
  from score_ge_10 [of "ascii ''%''"] ne sp show ?thesis
    by simp
qed

subsection \<open>Appending new characters\<close>

text \<open>
  When no appended code unit is a low surrogate, the string iterator yields the elements
  of the old password followed by one element per appended code unit.
\<close>

lemma stringIterator_no_low:
  assumes "\<not> list_ex isLowSurrogate ext"
  shows "stringIterator ext = map (\<lambda>u. [u]) ext"
  using assms by (induction ext rule: stringIterator.induct) auto

lemma stringIterator_append:
  assumes "\<not> list_ex isLowSurrogate ext"
  shows "stringIterator (password @ ext) = stringIterator password @ map (\<lambda>u. [u]) ext"
  using assms
proof (induction password rule: stringIterator.induct)
  case 1
  then show ?case by (simp add: stringIterator_no_low)
next
  case (2 u)
  then show ?case
    by (cases ext) (auto simp: stringIterator_no_low)
next
  case (3 u v rest)
  then show ?case by auto
qed

lemma stringIterator_elems:
  assumes "x \<in> set (stringIterator s)"
  shows "x \<noteq> [] \<and> set x \<subseteq> set s"
  using assms by (induction s rule: stringIterator.induct) (auto split: if_splits)

lemma uniqueChars_append:
  assumes low: "\<not> list_ex isLowSurrogate ext"
    and dist: "distinct ext"
    and new: "set ext \<inter> set password = {}"
  shows "uniqueChars (password @ ext) = uniqueChars password + length ext"
proof -
  let ?old = "stringIterator password"
  let ?new = "map (\<lambda>u. [u]) ext"
  have inj: "inj_on (\<lambda>u. [u]) (set ext)"
    by (simp add: inj_on_def)
  have d: "distinct ?new"
    using dist by (simp add: distinct_map inj)
  have disj: "set ?old \<inter> set ?new = {}"
  proof (rule ccontr)
    assume "set ?old \<inter> set ?new \<noteq> {}"
    then obtain x where x: "x \<in> set ?old" "x \<in> set ?new"
      by blast
    from x(2) obtain u where u: "u \<in> set ext" "x = [u]"
      by auto
    from stringIterator_elems [OF x(1)] u have "u \<in> set password"
      by simp
    with u(1) new show False
      by blast
  qed
  have "uniqueChars (password @ ext) = card (set ?old \<union> set ?new)"
    by (simp add: uniqueChars_def stringIterator_append [OF low] length_remdups_card_conv)
  also have "\<dots> = card (set ?old) + card (set ?new)"
    by (rule card_Un_disjoint) (rule finite_set, rule finite_set, rule disj)
  also have "card (set ?new) = length ext"
    using distinct_card [OF d] by simp
  finally show ?thesis
    by (simp add: uniqueChars_def length_remdups_card_conv)
qed

text \<open>Each part of the score can only grow.\<close>

lemma test_append: "test cls password \<Longrightarrow> test cls (password @ ext)"
  by (simp add: test_def)

lemma lengthScore_mono: "lengthScore password \<le> lengthScore (password @ ext)"
  by (simp add: lengthScore_def)

lemma charTypeScore_mono: "charTypeScore password \<le> charTypeScore (password @ ext)"
proof -
  have "(if test cls password then 10 else 0 :: real)
      \<le> (if test cls (password @ ext) then 10 else 0)" for cls
    using test_append [of cls password ext] by simp
  from this [of isLowercase] this [of isUppercase] this [of isDigit] this [of isSpecial]
  show ?thesis
    unfolding charTypeScore_def by linarith
qed

lemma getCharSetSize_sum:
  "getCharSetSize s =
     (if test isLowercase s then 26 else 0) + (if test isUppercase s then 26 else 0) +
     (if test isDigit s then 10 else 0) + (if test isSpecial s then 32 else 0)"
  by (simp add: getCharSetSize_def)

lemma getCharSetSize_mono: "getCharSetSize password \<le> getCharSetSize (password @ ext)"
proof -
  have "(if test cls password then k else 0 :: real)
      \<le> (if test cls (password @ ext) then k else 0)" if "0 \<le> k" for cls k
    using test_append [of cls password ext] that by simp
  from this [of 26 isLowercase] this [of 26 isUppercase] this [of 10 isDigit]
    this [of 32 isSpecial]
  show ?thesis
    unfolding getCharSetSize_sum by simp
qed

lemma entropyScore_mono:
  assumes "password \<noteq> []"
  shows "entropyScore password \<le> entropyScore (password @ ext)"
proof -
  have s: "1 \<le> getCharSetSize password"
    using getCharSetSize_ge_10 [OF assms] by simp
  have l0: "0 \<le> log 2 (getCharSetSize password)"
    using s by simp
  have l: "log 2 (getCharSetSize password) \<le> log 2 (getCharSetSize (password @ ext))"
    using s getCharSetSize_mono [of password ext] by simp
  have "real (length password) * log 2 (getCharSetSize password)
      \<le> real (length (password @ ext)) * log 2 (getCharSetSize (password @ ext))"
    by (rule mult_mono) (use l l0 in simp_all)
  then show ?thesis
    by (simp add: entropyScore_def Let_def min_le_iff_disj)
qed

lemma ratio_mono:
  fixes u n k :: nat
  assumes "u \<le> n" "0 < n"
  shows "real u / real n \<le> real (u + k) / real (n + k)"
proof -
  have "u * (n + k) \<le> (u + k) * n"
    using assms by (simp add: algebra_simps)
  then have "real u * real (n + k) \<le> real (u + k) * real n"
    by (metis of_nat_mult of_nat_le_iff)
  then show ?thesis
    using assms by (simp add: field_simps)
qed

lemma min_scale_mono:
  fixes a b :: real
  assumes "a \<le> b"
  shows "min (a * 20) 20 \<le> min (b * 20) 20"
  using assms by linarith

lemma complexityScore_mono:
  assumes "password \<noteq> []" "\<not> list_ex isLowSurrogate ext" "distinct ext"
    "set ext \<inter> set password = {}"
  shows "complexityScore password \<le> complexityScore (password @ ext)"
proof -
  have "real (uniqueChars password) / real (length password)
      \<le> real (uniqueChars password + length ext) / real (length password + length ext)"
    by (rule ratio_mono) (use assms(1) uniqueChars_le_length in simp_all)
  then have "real (uniqueChars password) / real (length password)
      \<le> real (uniqueChars (password @ ext)) / real (length (password @ ext))"
    by (simp only: uniqueChars_append [OF assms(2-4)] length_append)
  then show ?thesis
    unfolding complexityScore_def by (rule min_scale_mono)
qed

lemma score_mono:
  assumes "password \<noteq> []" "\<not> list_ex isLowSurrogate ext" "distinct ext"
    "set ext \<inter> set password = {}"
  shows "score (calculatePasswordStrength password)
      \<le> score (calculatePasswordStrength (password @ ext))"
proof -
  have ne: "password @ ext \<noteq> []"
    using assms(1) by simp
  have "lengthScore password + charTypeScore password + complexityScore password +
        entropyScore password
     \<le> lengthScore (password @ ext) + charTypeScore (password @ ext) +
        complexityScore (password @ ext) + entropyScore (password @ ext)"
    using lengthScore_mono [of password ext] charTypeScore_mono [of password ext]
      complexityScore_mono [OF assms] entropyScore_mono [OF assms(1), of ext]
    by linarith
  then show ?thesis
    unfolding score_nonempty [OF assms(1)] score_nonempty [OF ne]
    by linarith
qed

text \<open>
  Appended code units of any kind. The iterator of the extended string is that of the
  old password followed by that of the extension, unless the password ends in a high
  surrogate and the extension starts with a low one: then these two form one element.
\<close>

lemma length_le_twice_stringIterator: "length s \<le> 2 * length (stringIterator s)"
  by (induction s rule: stringIterator.induct) auto

lemma stringIterator_distinct:
  assumes "distinct s"
  shows "distinct (stringIterator s)"
  using assms
proof (induction s rule: stringIterator.induct)
  case 1
  then show ?case by simp
next
  case (2 u)
  then show ?case by simp
next
  case (3 u v rest)
  have a: "[u, v] \<notin> set (stringIterator rest)"
    using stringIterator_elems [of "[u, v]" rest] "3.prems" by auto
  have b: "[u] \<notin> set (stringIterator (v # rest))"
    using stringIterator_elems [of "[u]" "v # rest"] "3.prems" by auto
  from 3 a b show ?case
    by auto
qed

lemma stringIterator_disjoint:
  assumes "set t \<inter> set s = {}"
  shows "set (stringIterator t) \<inter> set (stringIterator s) = {}"
proof (rule ccontr)
  assume "set (stringIterator t) \<inter> set (stringIterator s) \<noteq> {}"
  then obtain x where x: "x \<in> set (stringIterator t)" "x \<in> set (stringIterator s)"
    by blast
  from stringIterator_elems [OF x(1)] stringIterator_elems [OF x(2)]
  obtain a where "a \<in> set x" "a \<in> set t" "a \<in> set s"
    by (cases x) auto
  with assms show False
    by blast
qed

lemma stringIterator_junction:
  "stringIterator (s @ t) = stringIterator s @ stringIterator t \<or>
   (\<exists>s0 h l t0. s = s0 @ [h] \<and> t = l # t0 \<and>
      stringIterator s = stringIterator s0 @ [[h]] \<and>
      stringIterator (s @ t) = stringIterator s0 @ [[h, l]] @ stringIterator t0)"
proof (induction s rule: stringIterator.induct)
  case 1
  then show ?case by simp
next
  case (2 u)
  show ?case
  proof (cases t)
    case Nil
    then show ?thesis by simp
  next
    case (Cons l t0)
    show ?thesis
    proof (cases "isHighSurrogate u \<and> isLowSurrogate l")
      case True
      have "[u] = [] @ [u] \<and> t = l # t0 \<and>
          stringIterator [u] = stringIterator [] @ [[u]] \<and>
          stringIterator ([u] @ t) = stringIterator [] @ [[u, l]] @ stringIterator t0"
        using True Cons by simp
      then show ?thesis by blast
    next
      case False
      then show ?thesis using Cons by auto
    qed
  qed
next
  case (3 u v rest)
  show ?case
  proof (cases "isHighSurrogate u \<and> isLowSurrogate v")
    case True
    from "3.IH"(1) [OF True] show ?thesis
    proof
      assume "stringIterator (rest @ t) = stringIterator rest @ stringIterator t"
      with True have "stringIterator ((u # v # rest) @ t) =
          stringIterator (u # v # rest) @ stringIterator t"
        by simp
      then show ?thesis by (rule disjI1)
    next
      assume "\<exists>s0 h l t0. rest = s0 @ [h] \<and> t = l # t0 \<and>
        stringIterator rest = stringIterator s0 @ [[h]] \<and>
        stringIterator (rest @ t) = stringIterator s0 @ [[h, l]] @ stringIterator t0"
      then obtain s0 h l t0 where d: "rest = s0 @ [h]" "t = l # t0"
        "stringIterator rest = stringIterator s0 @ [[h]]"
        "stringIterator (rest @ t) = stringIterator s0 @ [[h, l]] @ stringIterator t0"
        by blast
      have e1: "stringIterator (u # v # rest) = [u, v] # stringIterator rest"
        using True by simp
      have e2: "stringIterator ((u # v # rest) @ t) = [u, v] # stringIterator (rest @ t)"
        using True by simp
      have e3: "stringIterator (u # v # s0) = [u, v] # stringIterator s0"
        using True by simp
      have c1: "u # v # rest = (u # v # s0) @ [h]"
        using d(1) by simp
      have c3: "stringIterator (u # v # rest) = stringIterator (u # v # s0) @ [[h]]"
        unfolding e1 d(3) e3 by simp
      have c4: "stringIterator ((u # v # rest) @ t) =
            stringIterator (u # v # s0) @ [[h, l]] @ stringIterator t0"
        unfolding e2 d(4) e3 by simp
      from c1 d(2) c3 c4 show ?thesis by blast
    qed
  next
    case False
    from "3.IH"(2) [OF False] show ?thesis
    proof
      assume "stringIterator ((v # rest) @ t) = stringIterator (v # rest) @ stringIterator t"
      with False have "stringIterator ((u # v # rest) @ t) =
          stringIterator (u # v # rest) @ stringIterator t"
        by auto
      then show ?thesis by (rule disjI1)
    next
      assume "\<exists>s0 h l t0. v # rest = s0 @ [h] \<and> t = l # t0 \<and>
        stringIterator (v # rest) = stringIterator s0 @ [[h]] \<and>
        stringIterator ((v # rest) @ t) = stringIterator s0 @ [[h, l]] @ stringIterator t0"
      then obtain s0 h l t0 where d: "v # rest = s0 @ [h]" "t = l # t0"
        "stringIterator (v # rest) = stringIterator s0 @ [[h]]"
        "stringIterator ((v # rest) @ t) = stringIterator s0 @ [[h, l]] @ stringIterator t0"
        by blast
      have hd: "stringIterator (u # s0) = [u] # stringIterator s0"
      proof (cases s0)
        case Nil
        then show ?thesis by simp
      next
        case (Cons a r)
        with d(1) have "a = v" by simp
        with Cons False show ?thesis by auto
      qed
      have e1: "stringIterator (u # v # rest) = [u] # stringIterator (v # rest)"
        using False by auto
      have e2: "stringIterator ((u # v # rest) @ t) = [u] # stringIterator ((v # rest) @ t)"
        using False by auto
      have c1: "u # v # rest = (u # s0) @ [h]"
        using d(1) by simp
      have c3: "stringIterator (u # v # rest) = stringIterator (u # s0) @ [[h]]"
        unfolding e1 d(3) hd by simp
      have c4: "stringIterator ((u # v # rest) @ t) =
            stringIterator (u # s0) @ [[h, l]] @ stringIterator t0"
        unfolding e2 d(4) hd by simp
      from c1 d(2) c3 c4 show ?thesis by blast
    qed
  qed
qed

text \<open>
  So the number of distinct elements grows by at least half the number of appended code
  units, rounded down, and the ratio of distinct characters drops by at most one half:
  the uniqueness part loses at most the 10 points that a threshold of the length part adds.
\<close>

lemma uniqueChars_append_lower:
  assumes dist: "distinct ext" and new: "set ext \<inter> set password = {}"
  shows "2 * uniqueChars password + length ext \<le> 2 * uniqueChars (password @ ext) + 1"
  using stringIterator_junction [of password ext]
proof
  assume j: "stringIterator (password @ ext) = stringIterator password @ stringIterator ext"
  have "uniqueChars (password @ ext) =
      card (set (stringIterator password) \<union> set (stringIterator ext))"
    by (simp add: uniqueChars_def j length_remdups_card_conv)
  also have "\<dots> = card (set (stringIterator password)) + card (set (stringIterator ext))"
    by (rule card_Un_disjoint)
      (use stringIterator_disjoint [OF new] in \<open>auto simp: Int_commute\<close>)
  also have "card (set (stringIterator ext)) = length (stringIterator ext)"
    by (rule distinct_card) (rule stringIterator_distinct [OF dist])
  finally have "uniqueChars (password @ ext) = uniqueChars password + length (stringIterator ext)"
    by (simp add: uniqueChars_def length_remdups_card_conv)
  with length_le_twice_stringIterator [of ext] show ?thesis
    by simp
next
  assume "\<exists>s0 h l t0. password = s0 @ [h] \<and> ext = l # t0 \<and>
      stringIterator password = stringIterator s0 @ [[h]] \<and>
      stringIterator (password @ ext) = stringIterator s0 @ [[h, l]] @ stringIterator t0"
  then obtain s0 h l t0 where d: "password = s0 @ [h]" "ext = l # t0"
      "stringIterator password = stringIterator s0 @ [[h]]"
      "stringIterator (password @ ext) = stringIterator s0 @ [[h, l]] @ stringIterator t0"
    by blast
  let ?A = "set (stringIterator s0)"
  let ?B = "set (stringIterator t0)"
  have l_new: "l \<notin> set s0" and h_new: "h \<notin> set t0"
    using new d(1,2) by auto
  have p1: "[h, l] \<notin> ?A"
    using stringIterator_elems [of "[h, l]" s0] l_new by auto
  have p2: "[h, l] \<notin> ?B"
    using stringIterator_elems [of "[h, l]" t0] h_new by auto
  have "set t0 \<inter> set s0 = {}"
    using new d(1,2) by auto
  then have p3: "?A \<inter> ?B = {}"
    using stringIterator_disjoint [of t0 s0] by (simp add: Int_commute)
  have "distinct t0"
    using dist d(2) by simp
  then have cB: "card ?B = length (stringIterator t0)"
    by (intro distinct_card stringIterator_distinct)
  have "uniqueChars (password @ ext) = card (insert [h, l] (?A \<union> ?B))"
    by (simp add: uniqueChars_def d(4) length_remdups_card_conv Un_commute)
  also have "\<dots> = Suc (card (?A \<union> ?B))"
    by (rule card_insert_disjoint) (use p1 p2 in auto)
  also have "card (?A \<union> ?B) = card ?A + card ?B"
    by (rule card_Un_disjoint) (use p3 in auto)
  finally have new_count: "uniqueChars (password @ ext) = Suc (card ?A + length (stringIterator t0))"
    by (simp add: cB)
  have "uniqueChars password = card (insert [h] ?A)"
    by (simp add: uniqueChars_def d(3) length_remdups_card_conv)
  also have "\<dots> \<le> Suc (card ?A)"
    by (rule card_insert_le_m1) simp_all
  finally have old_count: "uniqueChars password \<le> Suc (card ?A)" .
  from new_count old_count length_le_twice_stringIterator [of t0] d(2) show ?thesis
    by simp
qed

lemma ratio_lower:
  fixes u n u' k :: nat
  assumes "u \<le> n" "0 < n" "2 * u + k \<le> 2 * u' + 1"
  shows "real u / real n - 1 / 2 \<le> real u' / real (n + k)"
proof -
  have a: "2 * (u * n) + n * k \<le> 2 * (u' * n) + n"
    using mult_le_mono1 [OF assms(3), of n] by (simp add: algebra_simps)
  have b: "2 * (u * k) \<le> 2 * (n * k)"
    using assms(1) by simp
  have c: "n \<le> n * n"
    using assms(2) by simp
  from a b c have "2 * (u * n) + 2 * (u * k) \<le> 2 * (u' * n) + n * n + n * k"
    by linarith
  then have "real (2 * (u * n) + 2 * (u * k)) \<le> real (2 * (u' * n) + n * n + n * k)"
    by (rule of_nat_mono)
  then have r: "2 * (real u * real n) + 2 * (real u * real k)
      \<le> 2 * (real u' * real n) + real n * real n + real n * real k"
    by simp
  have pos: "0 < real n" "0 < real n + real k"
    using assms(2) by simp_all
  have "real u / real n - 1 / 2 - real u' / (real n + real k)
      = (2 * (real u * real n) + 2 * (real u * real k)
          - (2 * (real u' * real n) + real n * real n + real n * real k))
        / (2 * real n * (real n + real k))"
    using pos by (simp add: field_simps)
  also have "\<dots> \<le> 0"
    using r pos by (simp add: divide_le_0_iff)
  finally show ?thesis
    by simp
qed

lemma min_scale_lower:
  fixes a b :: real
  assumes "a - 1 / 2 \<le> b"
  shows "min (a * 20) 20 - 10 \<le> min (b * 20) 20"
  using assms by linarith

lemma complexityScore_lower:
  assumes "password \<noteq> []" "distinct ext" "set ext \<inter> set password = {}"
  shows "complexityScore password - 10 \<le> complexityScore (password @ ext)"
proof -
  have "real (uniqueChars password) / real (length password) - 1 / 2
      \<le> real (uniqueChars (password @ ext)) / real (length password + length ext)"
    by (rule ratio_lower)
      (use assms(1) uniqueChars_le_length uniqueChars_append_lower [OF assms(2,3)] in simp_all)
  then have "real (uniqueChars password) / real (length password) - 1 / 2
      \<le> real (uniqueChars (password @ ext)) / real (length (password @ ext))"
    by (simp only: length_append)
  then show ?thesis
    unfolding complexityScore_def by (rule min_scale_lower)
qed

lemma lengthScore_values: "lengthScore s \<in> {0, 10, 20, 30, 40}"
  by (simp add: lengthScore_def)

lemma lengthScore_step:
  assumes "lengthScore s < lengthScore s'"
  shows "lengthScore s + 10 \<le> lengthScore s'"
  using assms lengthScore_values [of s] lengthScore_values [of s'] by auto

lemma score_mono_threshold:
  assumes "password \<noteq> []" "distinct ext" "set ext \<inter> set password = {}"
    "lengthScore password < lengthScore (password @ ext)"
  shows "score (calculatePasswordStrength password)
      \<le> score (calculatePasswordStrength (password @ ext))"
proof -
  have ne: "password @ ext \<noteq> []"
    using assms(1) by simp
  have "lengthScore password + charTypeScore password + complexityScore password +
        entropyScore password
     \<le> lengthScore (password @ ext) + charTypeScore (password @ ext) +
        complexityScore (password @ ext) + entropyScore (password @ ext)"
    using lengthScore_step [OF assms(4)] charTypeScore_mono [of password ext]
      complexityScore_lower [OF assms(1-3)] entropyScore_mono [OF assms(1), of ext]
    by linarith
  then show ?thesis
    unfolding score_nonempty [OF assms(1)] score_nonempty [OF ne]
    by linarith
qed

lemma classCount_nonempty: "2 \<le> classCount password \<Longrightarrow> password \<noteq> []"
  by (auto simp: classCount_def test_def)

text \<open>
  Claim C8, as stated, fails. \<^verbatim>\<open>new Set(password)\<close> counts code points and
  \<^verbatim>\<open>password.length\<close> counts UTF-16 code units, so a character outside the basic plane adds
  one to the first and two to the second. The password \<^verbatim>\<open>a!\<close> has two classes and the
  score \<open>20 + 20 + 0.2 * log 2 58\<close>, about 41.2; appending the one new character U+1F600 (the
  code units D83D DE00, distinct from each other and from those of the password) gives
  \<open>20 + 15 + 0.4 * log 2 58\<close>, about 37.3.
\<close>

theorem score_decreases_astral:
  "2 \<le> classCount (ascii ''a!'') \<and>
   distinct [0xD83D, 0xDE00 :: codeUnit] \<and>
   set [0xD83D, 0xDE00] \<inter> set (ascii ''a!'') = {} \<and>
   stringIterator (ascii ''a!'' @ [0xD83D, 0xDE00]) = stringIterator (ascii ''a!'') @ [[0xD83D, 0xDE00]] \<and>
   score (calculatePasswordStrength (ascii ''a!'' @ [0xD83D, 0xDE00]))
     < score (calculatePasswordStrength (ascii ''a!''))"
proof -
  have L: "0 < log 2 58" "log 2 58 < 6"
    by (simp_all add: log_less_iff)
  have t: "test isLowercase (ascii ''a!'')" "\<not> test isUppercase (ascii ''a!'')"
    "\<not> test isDigit (ascii ''a!'')" "test isSpecial (ascii ''a!'')"
    by (simp_all add: test_def ascii_def isLowercase_def isUppercase_def isDigit_def isSpecial_def)
  have t': "test isLowercase (ascii ''a!'' @ [0xD83D, 0xDE00])"
    "\<not> test isUppercase (ascii ''a!'' @ [0xD83D, 0xDE00])"
    "\<not> test isDigit (ascii ''a!'' @ [0xD83D, 0xDE00])"
    "test isSpecial (ascii ''a!'' @ [0xD83D, 0xDE00])"
    by (simp_all add: test_def ascii_def isLowercase_def isUppercase_def isDigit_def isSpecial_def)
  have u: "uniqueChars (ascii ''a!'') = 2" "uniqueChars (ascii ''a!'' @ [0xD83D, 0xDE00]) = 3"
    by (simp_all add: uniqueChars_def ascii_def isHighSurrogate_def isLowSurrogate_def)
  have n: "length (ascii ''a!'') = 2" "ascii ''a!'' \<noteq> []"
    by (simp_all add: ascii_def)
  have old: "score (calculatePasswordStrength (ascii ''a!'')) = 40 + 2 * log 2 58 / 10"
    using L
    by (simp add: score_nonempty [OF n(2)] lengthScore_def charTypeScore_def complexityScore_def
        entropyScore_def getCharSetSize_def Let_def t u n)
  have new: "score (calculatePasswordStrength (ascii ''a!'' @ [0xD83D, 0xDE00])) = 35 + 4 * log 2 58 / 10"
    using L
    by (simp add: score_nonempty lengthScore_def charTypeScore_def complexityScore_def
        entropyScore_def getCharSetSize_def Let_def t' u n)
  have it: "stringIterator (ascii ''a!'' @ [0xD83D, 0xDE00]) = stringIterator (ascii ''a!'') @ [[0xD83D, 0xDE00]]"
    by (simp add: ascii_def isHighSurrogate_def isLowSurrogate_def)
  have "2 \<le> classCount (ascii ''a!'')"
    by (simp add: classCount_def t)
  moreover have "set [0xD83D, 0xDE00] \<inter> set (ascii ''a!'') = {}"
    by (simp add: ascii_def)
  moreover have "score (calculatePasswordStrength (ascii ''a!'' @ [0xD83D, 0xDE00]))
     < score (calculatePasswordStrength (ascii ''a!''))"
    unfolding old new using L by simp
  ultimately show ?thesis
    using it by simp
qed

text \<open>
  Claim C8, amended. For every password containing at least two character classes, appending
  UTF-16 code units that are distinct from each other and from every code unit already in
  the password never decreases the score, provided that none of the appended code units is
  a low surrogate (so that none completes a surrogate pair) or that the new length crosses
  a threshold of the length bonus.
\<close>

theorem score_append_distinct:
  assumes "2 \<le> classCount password"
    and "distinct ext"
    and "set ext \<inter> set password = {}"
    and "\<not> list_ex isLowSurrogate ext \<or> lengthScore password < lengthScore (password @ ext)"
  shows "score (calculatePasswordStrength password)
      \<le> score (calculatePasswordStrength (password @ ext))"
  using assms(4)
proof
  assume "\<not> list_ex isLowSurrogate ext"
  from score_mono [OF classCount_nonempty [OF assms(1)] this assms(2) assms(3)]
  show ?thesis .
next
  assume "lengthScore password < lengthScore (password @ ext)"
  from score_mono_threshold [OF classCount_nonempty [OF assms(1)] assms(2) assms(3) this]
  show ?thesis .
qed

text \<open>
  Two instances. \<^verbatim>\<open>aB3\<close> extended by \<^verbatim>\<open>xyz!?\<close>: no surrogate is appended (and the
  length goes from 3 to 8). \<^verbatim>\<open>aB3cD5!\<close> extended by the character U+1F600, the code units
  D83D DE00: the length goes from 7 to 9 and crosses the first threshold.
\<close>

theorem score_append_distinct_witness:
  "2 \<le> classCount (ascii ''aB3'') \<and>
   distinct (ascii ''xyz!?'') \<and>
   set (ascii ''xyz!?'') \<inter> set (ascii ''aB3'') = {} \<and>
   \<not> list_ex isLowSurrogate (ascii ''xyz!?'') \<and>
   score (calculatePasswordStrength (ascii ''aB3''))
     \<le> score (calculatePasswordStrength (ascii ''aB3'' @ ascii ''xyz!?'')) \<and>
   2 \<le> classCount (ascii ''aB3cD5!'') \<and>
   distinct [0xD83D, 0xDE00 :: codeUnit] \<and>
   set [0xD83D, 0xDE00] \<inter> set (ascii ''aB3cD5!'') = {} \<and>
   lengthScore (ascii ''aB3cD5!'') < lengthScore (ascii ''aB3cD5!'' @ [0xD83D, 0xDE00]) \<and>
   score (calculatePasswordStrength (ascii ''aB3cD5!''))
     \<le> score (calculatePasswordStrength (ascii ''aB3cD5!'' @ [0xD83D, 0xDE00]))"
proof -
  have c: "2 \<le> classCount (ascii ''aB3'')"
    by (simp add: classCount_def test_def ascii_def isLowercase_def isUppercase_def isDigit_def
        isSpecial_def)
  have d: "distinct (ascii ''xyz!?'')"
    by (simp add: ascii_def)
  have n: "set (ascii ''xyz!?'') \<inter> set (ascii ''aB3'') = {}"
    by (simp add: ascii_def)
  have l: "\<not> list_ex isLowSurrogate (ascii ''xyz!?'')"
    by (simp add: ascii_def isLowSurrogate_def)
  have c': "2 \<le> classCount (ascii ''aB3cD5!'')"
    by (simp add: classCount_def test_def ascii_def isLowercase_def isUppercase_def isDigit_def
        isSpecial_def)
  have d': "distinct [0xD83D, 0xDE00 :: codeUnit]"
    by simp
  have n': "set [0xD83D, 0xDE00] \<inter> set (ascii ''aB3cD5!'') = {}"
    by (simp add: ascii_def)
  have t: "lengthScore (ascii ''aB3cD5!'') < lengthScore (ascii ''aB3cD5!'' @ [0xD83D, 0xDE00])"
    by (simp add: lengthScore_def ascii_def)
  from score_append_distinct [OF c d n disjI1 [OF l]]
    score_append_distinct [OF c' d' n' disjI2 [OF t]] c d n l c' d' n' t
  show ?thesis
    by simp
qed

section \<open>Failure\<close>



end
